theory Spec2Isabelle
  imports Main
begin

section \<open>Python values used by the scanner\<close>

text \<open>
  The scanner (\<^verbatim>\<open>scanner/cli.py\<close>) walks a tree of clang cursors and slices the text of
  the scanned file. Exceptions are values: a function that can raise returns
  \<open>error + 'a\<close>, with \<open>Inl\<close> for the exception.
\<close>

datatype error = IndexError | FileNotFoundError | AttributeError

text \<open>
  Text is a list of characters, one \<open>char\<close> per code point below 256.
  \<open>isspace\<close> is \<^verbatim>\<open>str.isspace\<close> on one such character and \<open>linebreak\<close> the line
  boundaries of \<^verbatim>\<open>str.splitlines\<close>.
\<close>

definition isspace :: "char \<Rightarrow> bool" where
  "isspace c = (c \<in> set [CHR 0x09, CHR 0x0A, CHR 0x0B, CHR 0x0C, CHR 0x0D,
                          CHR 0x1C, CHR 0x1D, CHR 0x1E, CHR 0x1F, CHR 0x20,
                          CHR 0x85, CHR 0xA0])"

definition linebreak :: "char \<Rightarrow> bool" where
  "linebreak c = (c \<in> set [CHR 0x0A, CHR 0x0B, CHR 0x0C, CHR 0x0D,
                            CHR 0x1C, CHR 0x1D, CHR 0x1E, CHR 0x85])"

text \<open>\<^verbatim>\<open>s.strip()\<close>: leading and trailing whitespace removed.\<close>

definition strip :: "string \<Rightarrow> string" where
  "strip s = rev (dropWhile isspace (rev (dropWhile isspace s)))"

text \<open>
  \<^verbatim>\<open>s.splitlines()\<close>: the lines of \<open>s\<close> without their line breaks; a carriage return
  followed by a line feed is one break, and a final break opens no further line.
  The first argument is the line read so far.
\<close>

fun splitlines_from :: "string \<Rightarrow> string \<Rightarrow> string list" where
  "splitlines_from cur [] = (if cur = [] then [] else [cur])"
| "splitlines_from cur [c] = (if linebreak c then [cur] else [cur @ [c]])"
| "splitlines_from cur (c # d # cs) =
     (if linebreak c then
        (if c = CHR 0x0D \<and> d = CHR 0x0A then cur # splitlines_from [] cs
         else cur # splitlines_from [] (d # cs))
      else splitlines_from (cur @ [c]) (d # cs))"

definition splitlines :: "string \<Rightarrow> string list" where
  "splitlines s = splitlines_from [] s"

text \<open>
  \<^verbatim>\<open>xs[i]\<close>: a negative index counts from the end, an index out of range raises
  IndexError. \<^verbatim>\<open>xs[a:b]\<close>: both bounds are clipped, nothing is raised.
\<close>

definition getitem :: "'a list \<Rightarrow> int \<Rightarrow> error + 'a" where
  "getitem xs i =
     (let n = int (length xs); j = (if i < 0 then i + n else i)
      in if 0 \<le> j \<and> j < n then Inr (xs ! nat j) else Inl IndexError)"

definition slice_bound :: "nat \<Rightarrow> int \<Rightarrow> nat" where
  "slice_bound n i = (if i < 0 then nat (max 0 (i + int n)) else min (nat i) n)"

definition slice :: "'a list \<Rightarrow> int \<Rightarrow> int \<Rightarrow> 'a list" where
  "slice xs a b =
     (let lo = slice_bound (length xs) a; hi = slice_bound (length xs) b
      in take (hi - lo) (drop lo xs))"

text \<open>\<^verbatim>\<open>s.endswith(";")\<close> and the decimal text of a number in an f-string.\<close>

definition endswith_semicolon :: "string \<Rightarrow> bool" where
  "endswith_semicolon s = (s \<noteq> [] \<and> last s = CHR '';'')"

definition digit :: "nat \<Rightarrow> char" where
  "digit d = char_of (of_char (CHR ''0'') + d)"

fun str_nat :: "nat \<Rightarrow> string" where
  "str_nat n = (if n < 10 then [digit n] else str_nat (n div 10) @ [digit (n mod 10)])"

declare str_nat.simps [simp del]


section \<open>The data model\<close>

text \<open>\<^verbatim>\<open>class SideEffectKind(enum.Enum)\<close>, with the \<^verbatim>\<open>name\<close> of each member.\<close>

datatype SideEffectKind =
    DEREFERENCE_NON_CONST_POINTER
  | ASSIGN_TO_POINTER_OR_REFERENCE
  | DYNAMIC_MEMORY_ALLOCATION
  | THROW_EXCEPTION
  | OTHER

fun kind_name :: "SideEffectKind \<Rightarrow> string" where
  "kind_name DEREFERENCE_NON_CONST_POINTER = ''DEREFERENCE_NON_CONST_POINTER''"
| "kind_name ASSIGN_TO_POINTER_OR_REFERENCE = ''ASSIGN_TO_POINTER_OR_REFERENCE''"
| "kind_name DYNAMIC_MEMORY_ALLOCATION = ''DYNAMIC_MEMORY_ALLOCATION''"
| "kind_name THROW_EXCEPTION = ''THROW_EXCEPTION''"
| "kind_name OTHER = ''OTHER''"

text \<open>
  Modelled from the spec: the classes of \<^verbatim>\<open>clang.cindex\<close> (source locations and ranges,
  the enumerations of cursor and type kinds, cursors, translation units) are not in
  the repository; they are given here as far as the scanner reads them.

  A source location has the file (its name, or none for a location without a file)
  and the 1-based line and column, which clang hands out as unsigned numbers.
\<close>

record SourceLocation =
  file_name :: "string option"
  line :: nat
  column :: nat

record SourceRange =
  range_start :: SourceLocation
  range_end :: SourceLocation

text \<open>\<^verbatim>\<open>@dataclass class SideEffectInfo\<close>.\<close>

record SideEffectInfo =
  kind :: SideEffectKind
  location :: SourceRange
  code :: string

text \<open>
  Modelled from the spec: the members of clang's two enumerations, which the
  repository does not define. \<open>CursorKind\<close> lists the members the scanner names and
  those of the trees below; \<open>KindId\<close> stands for every other member. The scanner
  compares the kind of a type with \<^verbatim>\<open>CursorKind.POINTER_TYPE\<close> and
  \<^verbatim>\<open>CursorKind.LVALUE_REFERENCE\<close>, which the specification describes as values meant for
  cursor kinds; they are members of \<open>CursorKind\<close> here. Both enumerations are members
  of one type of enumeration values, equal only when they are the same member of the
  same enumeration.
\<close>

datatype CursorKind =
    FUNCTION_DECL | CXX_METHOD | PARM_DECL | VAR_DECL
  | COMPOUND_STMT | DECL_STMT
  | UNEXPOSED_EXPR | DECL_REF_EXPR | INTEGER_LITERAL | CXX_NULL_PTR_LITERAL_EXPR
  | UNARY_OPERATOR | BINARY_OPERATOR | CXX_NEW_EXPR | CXX_THROW_EXPR
  | POINTER_TYPE | LVALUE_REFERENCE
  | KindId nat

datatype TypeKind = INVALID | INT | POINTER | LVALUEREFERENCE | TypeKindId nat

datatype enum_value = OfCursorKind CursorKind | OfTypeKind TypeKind

text \<open>
  Modelled from the spec: a cursor of \<^verbatim>\<open>clang.cindex\<close>, as the scanner sees it: the
  values of the attribute paths it reads, and the children in order.
  \<^item> \<open>cursor_kind\<close> is \<^verbatim>\<open>cursor.kind\<close>, \<open>spelling\<close> is \<^verbatim>\<open>cursor.spelling\<close>;
  \<^item> \<open>canonical_spelling\<close> is \<^verbatim>\<open>cursor.canonical.spelling\<close>;
  \<^item> \<open>pointee_is_const_qualified\<close> is
    \<^verbatim>\<open>cursor.type.get_pointee().canonical.is_const_qualified()\<close>;
  \<^item> \<open>lhs_type_kind\<close> is \<^verbatim>\<open>cursor.canonical.type.get_pointee().canonical.kind\<close>;
  \<^item> \<open>extent\<close> is \<^verbatim>\<open>cursor.extent\<close>, \<open>cursor_location\<close> is \<^verbatim>\<open>cursor.location\<close>.
\<close>

record cursor_attrs =
  cursor_kind :: CursorKind
  spelling :: string
  canonical_spelling :: string
  pointee_is_const_qualified :: bool
  lhs_type_kind :: enum_value
  extent :: SourceRange
  cursor_location :: SourceLocation

datatype cursor = Cursor (attrs: cursor_attrs) (get_children: "cursor list")

text \<open>
  The translation unit: its \<^verbatim>\<open>spelling\<close> (the path of the parsed file) and its root
  cursor. The files on disk are a map from a path to the text that reading it returns.
\<close>

record translation_unit =
  tu_spelling :: string
  tu_cursor :: cursor

type_synonym files = "string \<rightharpoonup> string"


section \<open>The code text of a cursor\<close>

text \<open>
  The loop of \<^verbatim>\<open>full_name_from_cursor\<close> over
  \<^verbatim>\<open>range(cursor.extent.start.line, cursor.extent.end.line - 1)\<close>.
\<close>

fun interior_lines :: "string list \<Rightarrow> nat list \<Rightarrow> string \<Rightarrow> error + string" where
  "interior_lines ls [] full_name = Inr full_name"
| "interior_lines ls (l # rest) full_name =
     (case getitem ls (int l) of
        Inl e \<Rightarrow> Inl e
      | Inr x \<Rightarrow> interior_lines ls rest (full_name @ '' '' @ strip x))"

definition strip_semicolon :: "string \<Rightarrow> string" where
  "strip_semicolon full_name =
     (if endswith_semicolon full_name then strip (butlast full_name) else full_name)"

definition full_name_from_cursor :: "cursor \<Rightarrow> string \<Rightarrow> files \<Rightarrow> error + string" where
  "full_name_from_cursor cursor filename fs =
     (case fs filename of
        None \<Rightarrow> Inl FileNotFoundError
      | Some content \<Rightarrow>
          let ls = splitlines content;
              start = range_start (extent (attrs cursor));
              end' = range_end (extent (attrs cursor))
          in
          if line start = line end' then
            (case getitem ls (int (line (cursor_location (attrs cursor))) - 1) of
               Inl e \<Rightarrow> Inl e
             | Inr l \<Rightarrow>
                 Inr (strip_semicolon
                        (strip (slice l (int (column start) - 1) (int (column end') - 1)))))
          else
            (case getitem ls (int (line start) - 1) of
               Inl e \<Rightarrow> Inl e
             | Inr l0 \<Rightarrow>
                 (case interior_lines ls [line start ..< line end' - 1] (strip l0) of
                    Inl e \<Rightarrow> Inl e
                  | Inr full_name \<Rightarrow>
                      (case getitem ls (int (line end') - 1) of
                         Inl e \<Rightarrow> Inl e
                       | Inr ln \<Rightarrow> Inr (strip_semicolon (full_name @ '' '' @ strip ln))))))"


section \<open>Classification and the search for the first side effect\<close>

text \<open>
  \<^verbatim>\<open>SideEffectInfo(k, cursor.extent, full_name_from_cursor(cursor, translation_unit.spelling))\<close>,
  the value every matching branch returns.
\<close>

definition side_effect_of ::
  "SideEffectKind \<Rightarrow> cursor \<Rightarrow> translation_unit \<Rightarrow> files \<Rightarrow> error + SideEffectInfo option" where
  "side_effect_of k cursor tu fs =
     (case full_name_from_cursor cursor (tu_spelling tu) fs of
        Inl e \<Rightarrow> Inl e
      | Inr c \<Rightarrow> Inr (Some \<lparr>kind = k, location = extent (attrs cursor), code = c\<rparr>))"

text \<open>
  The \<^verbatim>\<open>if\<close>/\<^verbatim>\<open>elif\<close> chain at the head of \<^verbatim>\<open>has_side_effects\<close>: what the cursor itself
  gives, before any child is looked at. \<open>Inr None\<close> is the fall through to the loop
  over the children.
\<close>

definition classify :: "cursor \<Rightarrow> translation_unit \<Rightarrow> files \<Rightarrow> error + SideEffectInfo option" where
  "classify cursor tu fs =
     (if cursor_kind (attrs cursor) = UNARY_OPERATOR then
        (if canonical_spelling (attrs cursor) = ''operator*'' then
           (if \<not> pointee_is_const_qualified (attrs cursor)
            then side_effect_of DEREFERENCE_NON_CONST_POINTER cursor tu fs
            else Inr None)
         else Inr None)
      else if cursor_kind (attrs cursor) = BINARY_OPERATOR then
        (if canonical_spelling (attrs cursor) \<in> set [''operator='', ''operator&=''] then
           (if lhs_type_kind (attrs cursor)
                 \<in> set [OfCursorKind POINTER_TYPE, OfCursorKind LVALUE_REFERENCE]
            then side_effect_of ASSIGN_TO_POINTER_OR_REFERENCE cursor tu fs
            else Inr None)
         else Inr None)
      else if cursor_kind (attrs cursor) = CXX_NEW_EXPR then
        side_effect_of DYNAMIC_MEMORY_ALLOCATION cursor tu fs
      else if cursor_kind (attrs cursor) = CXX_THROW_EXPR then
        side_effect_of THROW_EXCEPTION cursor tu fs
      else Inr None)"

text \<open>
  \<^verbatim>\<open>has_side_effects\<close>: the cursor's own classification, else the first side effect
  found in a child, in order. A \<^verbatim>\<open>SideEffectInfo\<close> is always true as a condition.
\<close>

fun has_side_effects :: "cursor \<Rightarrow> translation_unit \<Rightarrow> files \<Rightarrow> error + SideEffectInfo option"
  and has_side_effects_children ::
    "cursor list \<Rightarrow> translation_unit \<Rightarrow> files \<Rightarrow> error + SideEffectInfo option" where
  "has_side_effects (Cursor a cs) tu fs =
     (case classify (Cursor a cs) tu fs of
        Inl e \<Rightarrow> Inl e
      | Inr (Some side_effect) \<Rightarrow> Inr (Some side_effect)
      | Inr None \<Rightarrow> has_side_effects_children cs tu fs)"
| "has_side_effects_children [] tu fs = Inr None"
| "has_side_effects_children (child # rest) tu fs =
     (case has_side_effects child tu fs of
        Inl e \<Rightarrow> Inl e
      | Inr (Some side_effect) \<Rightarrow> Inr (Some side_effect)
      | Inr None \<Rightarrow> has_side_effects_children rest tu fs)"


section \<open>Scanning a function\<close>

text \<open>The loop of \<^verbatim>\<open>scan_function\<close>, with the list \<^verbatim>\<open>side_effects\<close> built so far.\<close>

fun scan_children ::
  "cursor list \<Rightarrow> translation_unit \<Rightarrow> files \<Rightarrow> SideEffectInfo list \<Rightarrow> error + SideEffectInfo list" where
  "scan_children [] tu fs side_effects = Inr side_effects"
| "scan_children (child # rest) tu fs side_effects =
     (case has_side_effects child tu fs of
        Inl e \<Rightarrow> Inl e
      | Inr None \<Rightarrow> scan_children rest tu fs side_effects
      | Inr (Some side_effect) \<Rightarrow> scan_children rest tu fs (side_effects @ [side_effect]))"

definition scan_function :: "cursor \<Rightarrow> translation_unit \<Rightarrow> files \<Rightarrow> error + SideEffectInfo list" where
  "scan_function cursor tu fs = scan_children (get_children cursor) tu fs []"


section \<open>The report\<close>

text \<open>
  Standard output is the list of the lines printed, one per call of \<^verbatim>\<open>print\<close>. A
  printing function returns the lines it printed and the exception that stopped it,
  if any. \<^verbatim>\<open>location.start.file.name\<close> raises AttributeError when the location has no
  file; the line with the kind is printed before that.
\<close>

fun print_side_effects :: "SideEffectInfo list \<Rightarrow> string list \<times> error option" where
  "print_side_effects [] = ([], None)"
| "print_side_effects (side_effect # rest) =
     (case file_name (range_start (location side_effect)) of
        None \<Rightarrow> ([''Side effect found: '' @ kind_name (kind side_effect)], Some AttributeError)
      | Some name \<Rightarrow>
          (case print_side_effects rest of
             (out, err) \<Rightarrow>
               ([''Side effect found: '' @ kind_name (kind side_effect),
                 ''Location: '' @ name @ '':''
                   @ str_nat (line (range_start (location side_effect))) @ '':''
                   @ str_nat (column (range_start (location side_effect))) @ '' - ''
                   @ str_nat (line (range_end (location side_effect))) @ '':''
                   @ str_nat (column (range_end (location side_effect))),
                 ''Code: '' @ code side_effect,
                 ''''] @ out, err)))"

definition print_side_effect_info :: "string \<Rightarrow> SideEffectInfo list \<Rightarrow> string list \<times> error option" where
  "print_side_effect_info function_name side_effects =
     (case print_side_effects side_effects of
        (out, err) \<Rightarrow> ((''Funciton: '' @ function_name) # out, err))"

text \<open>
  The loop of \<^verbatim>\<open>main\<close> over the children of the root cursor, with the flag
  \<^verbatim>\<open>no_side_effects\<close>; it returns the lines printed and the flag at the end, or the
  exception. \<open>main\<close> starts after the command line is read and the file is parsed.
\<close>

fun main_loop ::
  "cursor list \<Rightarrow> translation_unit \<Rightarrow> files \<Rightarrow> bool \<Rightarrow> string list \<times> (error + bool)" where
  "main_loop [] tu fs no_side_effects = ([], Inr no_side_effects)"
| "main_loop (cursor # rest) tu fs no_side_effects =
     (if cursor_kind (attrs cursor) = CXX_METHOD \<or> cursor_kind (attrs cursor) = FUNCTION_DECL then
        (case scan_function cursor tu fs of
           Inl e \<Rightarrow> ([], Inl e)
         | Inr side_effects \<Rightarrow>
             if side_effects \<noteq> [] then
               (case print_side_effect_info (spelling (attrs cursor)) side_effects of
                  (out, Some e) \<Rightarrow> (out, Inl e)
                | (out, None) \<Rightarrow>
                    (case main_loop rest tu fs False of
                       (out', r) \<Rightarrow> (out @ out', r)))
             else main_loop rest tu fs no_side_effects)
      else main_loop rest tu fs no_side_effects)"

definition main :: "translation_unit \<Rightarrow> files \<Rightarrow> string list \<times> error option" where
  "main tu fs =
     (case main_loop (get_children (tu_cursor tu)) tu fs True of
        (out, Inl e) \<Rightarrow> (out, Some e)
      | (out, Inr no_side_effects) \<Rightarrow>
          if no_side_effects then (out @ [''No side effects found.''], None) else (out, None))"


section \<open>The four patterns and the nodes of a tree\<close>

text \<open>
  The guards of the four branches of \<open>classify\<close>, each as a predicate on the cursor,
  and the kind of the branch a cursor takes, if any.
\<close>

definition is_dereference :: "cursor \<Rightarrow> bool" where
  "is_dereference c =
     (cursor_kind (attrs c) = UNARY_OPERATOR \<and> canonical_spelling (attrs c) = ''operator*''
      \<and> \<not> pointee_is_const_qualified (attrs c))"

definition is_assignment :: "cursor \<Rightarrow> bool" where
  "is_assignment c =
     (cursor_kind (attrs c) = BINARY_OPERATOR
      \<and> canonical_spelling (attrs c) \<in> {''operator='', ''operator&=''}
      \<and> lhs_type_kind (attrs c) \<in> {OfCursorKind POINTER_TYPE, OfCursorKind LVALUE_REFERENCE})"

definition is_allocation :: "cursor \<Rightarrow> bool" where
  "is_allocation c = (cursor_kind (attrs c) = CXX_NEW_EXPR)"

definition is_throw :: "cursor \<Rightarrow> bool" where
  "is_throw c = (cursor_kind (attrs c) = CXX_THROW_EXPR)"

definition matches :: "cursor \<Rightarrow> bool" where
  "matches c = (is_dereference c \<or> is_assignment c \<or> is_allocation c \<or> is_throw c)"

definition pattern_kind :: "cursor \<Rightarrow> SideEffectKind option" where
  "pattern_kind c =
     (if is_dereference c then Some DEREFERENCE_NON_CONST_POINTER
      else if is_assignment c then Some ASSIGN_TO_POINTER_OR_REFERENCE
      else if is_allocation c then Some DYNAMIC_MEMORY_ALLOCATION
      else if is_throw c then Some THROW_EXCEPTION
      else None)"

text \<open>The nodes of a tree in pre-order, the root first.\<close>

fun nodes :: "cursor \<Rightarrow> cursor list" where
  "nodes (Cursor a cs) = Cursor a cs # concat (map nodes cs)"

text \<open>The first result in a list that is not "no match": a finding or an exception.\<close>

fun first_result :: "(error + 'a option) list \<Rightarrow> error + 'a option" where
  "first_result [] = Inr None"
| "first_result (r # rs) = (case r of Inr None \<Rightarrow> first_result rs | _ \<Rightarrow> r)"

text \<open>The finding of one direct child, as a list of at most one element.\<close>

definition child_findings :: "translation_unit \<Rightarrow> files \<Rightarrow> cursor \<Rightarrow> SideEffectInfo list" where
  "child_findings tu fs child =
     (case has_side_effects child tu fs of Inr (Some s) \<Rightarrow> [s] | _ \<Rightarrow> [])"

text \<open>
  The cursors \<open>main\<close> scans, the findings of one of them, and the lines its report
  takes.
\<close>

definition is_function :: "cursor \<Rightarrow> bool" where
  "is_function c = (cursor_kind (attrs c) = CXX_METHOD \<or> cursor_kind (attrs c) = FUNCTION_DECL)"

definition scanned_functions :: "translation_unit \<Rightarrow> cursor list" where
  "scanned_functions tu = filter is_function (get_children (tu_cursor tu))"

definition findings_of :: "translation_unit \<Rightarrow> files \<Rightarrow> cursor \<Rightarrow> SideEffectInfo list" where
  "findings_of tu fs c = (case scan_function c tu fs of Inr ss \<Rightarrow> ss | Inl e \<Rightarrow> [])"

definition function_report :: "translation_unit \<Rightarrow> files \<Rightarrow> cursor \<Rightarrow> string list" where
  "function_report tu fs c =
     fst (print_side_effect_info (spelling (attrs c)) (findings_of tu fs c))"

definition summary_line :: string where
  "summary_line = ''No side effects found.''"


section \<open>The code text as the specification words it\<close>




section \<open>Example trees\<close>

text \<open>
  A cursor with the given kind, spelling, canonical spelling, file, start and end of
  its extent (line and column) and children; the pointee is not const-qualified and
  the kind of the left-hand type is the invalid type kind.
\<close>

definition loc :: "string \<Rightarrow> nat \<Rightarrow> nat \<Rightarrow> SourceLocation" where
  "loc f l c = \<lparr>file_name = Some f, line = l, column = c\<rparr>"

definition node ::
  "CursorKind \<Rightarrow> string \<Rightarrow> string \<Rightarrow> string \<Rightarrow> nat \<times> nat \<Rightarrow> nat \<times> nat \<Rightarrow> cursor list \<Rightarrow> cursor" where
  "node k name canon f s e cs =
     Cursor \<lparr>cursor_kind = k, spelling = name, canonical_spelling = canon,
             pointee_is_const_qualified = False, lhs_type_kind = OfTypeKind INVALID,
             extent = \<lparr>range_start = loc f (fst s) (snd s), range_end = loc f (fst e) (snd e)\<rparr>,
             cursor_location = loc f (fst s) (snd s)\<rparr> cs"

definition finding :: "SideEffectKind \<Rightarrow> string \<Rightarrow> nat \<times> nat \<Rightarrow> nat \<times> nat \<Rightarrow> string \<Rightarrow> SideEffectInfo" where
  "finding k f s e c =
     \<lparr>kind = k,
      location = \<lparr>range_start = loc f (fst s) (snd s), range_end = loc f (fst e) (snd e)\<rparr>,
      code = c\<rparr>"

definition translation_unit_of :: "string \<Rightarrow> cursor list \<Rightarrow> translation_unit" where
  "translation_unit_of f decls =
     \<lparr>tu_spelling = f, tu_cursor = node (KindId 350) f f f (0, 0) (0, 0) decls\<rparr>"

subsection \<open>The function \<open>f\<close> of the specification's end-to-end scenario\<close>

text \<open>
  \<^verbatim>\<open>void f(int* p) {\<close>\<^verbatim>\<open>    int x = *p;\<close>\<^verbatim>\<open>    int* q = nullptr;\<close>
  \<^verbatim>\<open>    int* r = new int(5);\<close>\<^verbatim>\<open>    throw 1;\<close>\<^verbatim>\<open>}\<close>, one statement per line. The
  function declaration has the parameter and the body as its two children; the four
  statements are the children of the body. The cursor of a built-in operator, such
  as the dereference \<^verbatim>\<open>*p\<close>, has the empty spelling.
\<close>

definition f_cpp :: string where
  "f_cpp = ''void f(int* p) {'' @ [CHR 0x0A] @
           ''    int x = *p;'' @ [CHR 0x0A] @
           ''    int* q = nullptr;'' @ [CHR 0x0A] @
           ''    int* r = new int(5);'' @ [CHR 0x0A] @
           ''    throw 1;'' @ [CHR 0x0A] @
           ''}'' @ [CHR 0x0A]"

definition f_files :: files where
  "f_files = [''f.cpp'' \<mapsto> f_cpp]"

definition f_deref :: cursor where
  "f_deref = node UNARY_OPERATOR [] [] ''f.cpp'' (2, 13) (2, 15)
               [node UNEXPOSED_EXPR ''p'' ''p'' ''f.cpp'' (2, 14) (2, 15)
                  [node DECL_REF_EXPR ''p'' ''p'' ''f.cpp'' (2, 14) (2, 15) []]]"

definition f_new :: cursor where
  "f_new = node CXX_NEW_EXPR [] [] ''f.cpp'' (4, 14) (4, 24)
             [node INTEGER_LITERAL [] [] ''f.cpp'' (4, 22) (4, 23) []]"

definition f_throw :: cursor where
  "f_throw = node CXX_THROW_EXPR [] [] ''f.cpp'' (5, 5) (5, 12)
               [node INTEGER_LITERAL [] [] ''f.cpp'' (5, 11) (5, 12) []]"

definition f_x_stmt :: cursor where
  "f_x_stmt = node DECL_STMT [] [] ''f.cpp'' (2, 5) (2, 16)
     [node VAR_DECL ''x'' ''x'' ''f.cpp'' (2, 5) (2, 15)
        [node UNEXPOSED_EXPR [] [] ''f.cpp'' (2, 13) (2, 15) [f_deref]]]"

definition f_q_stmt :: cursor where
  "f_q_stmt = node DECL_STMT [] [] ''f.cpp'' (3, 5) (3, 22)
     [node VAR_DECL ''q'' ''q'' ''f.cpp'' (3, 5) (3, 21)
        [node UNEXPOSED_EXPR [] [] ''f.cpp'' (3, 14) (3, 21)
           [node CXX_NULL_PTR_LITERAL_EXPR [] [] ''f.cpp'' (3, 14) (3, 21) []]]]"

definition f_r_stmt :: cursor where
  "f_r_stmt = node DECL_STMT [] [] ''f.cpp'' (4, 5) (4, 25)
     [node VAR_DECL ''r'' ''r'' ''f.cpp'' (4, 5) (4, 24) [f_new]]"

definition f_body :: cursor where
  "f_body = node COMPOUND_STMT [] [] ''f.cpp'' (1, 16) (6, 2)
              [f_x_stmt, f_q_stmt, f_r_stmt, f_throw]"

definition f_decl :: cursor where
  "f_decl = node FUNCTION_DECL ''f'' ''f'' ''f.cpp'' (1, 1) (6, 2)
              [node PARM_DECL ''p'' ''p'' ''f.cpp'' (1, 8) (1, 14) [], f_body]"

definition f_tu :: translation_unit where
  "f_tu = translation_unit_of ''f.cpp'' [f_decl]"


definition f_new_finding :: SideEffectInfo where
  "f_new_finding = finding DYNAMIC_MEMORY_ALLOCATION ''f.cpp'' (4, 14) (4, 24) ''new int(5)''"


subsection \<open>A function with no match\<close>

text \<open>\<^verbatim>\<open>void f(int* p) { int* q = nullptr; }\<close>: the second statement of \<open>f\<close> alone.\<close>

definition q_decl :: cursor where
  "q_decl = node FUNCTION_DECL ''f'' ''f'' ''f.cpp'' (1, 1) (6, 2)
              [node PARM_DECL ''p'' ''p'' ''f.cpp'' (1, 8) (1, 14) [],
               node COMPOUND_STMT [] [] ''f.cpp'' (1, 16) (6, 2) [f_q_stmt]]"

definition q_tu :: translation_unit where
  "q_tu = translation_unit_of ''f.cpp'' [q_decl]"

subsection \<open>Two matching statements in one body\<close>

text \<open>
  \<^verbatim>\<open>void t() {\<close>\<^verbatim>\<open>    new int(5);\<close>\<^verbatim>\<open>    throw 1;\<close>\<^verbatim>\<open>}\<close>, one statement per line: the
  new-expression and the throw-expression are the two children of the body.
\<close>

definition t_cpp :: string where
  "t_cpp = ''void t() {'' @ [CHR 0x0A] @
           ''    new int(5);'' @ [CHR 0x0A] @
           ''    throw 1;'' @ [CHR 0x0A] @
           ''}'' @ [CHR 0x0A]"

definition t_files :: files where
  "t_files = [''t.cpp'' \<mapsto> t_cpp]"

definition t_new :: cursor where
  "t_new = node CXX_NEW_EXPR [] [] ''t.cpp'' (2, 5) (2, 15)
             [node INTEGER_LITERAL [] [] ''t.cpp'' (2, 13) (2, 14) []]"

definition t_throw :: cursor where
  "t_throw = node CXX_THROW_EXPR [] [] ''t.cpp'' (3, 5) (3, 12)
               [node INTEGER_LITERAL [] [] ''t.cpp'' (3, 11) (3, 12) []]"

definition t_body :: cursor where
  "t_body = node COMPOUND_STMT [] [] ''t.cpp'' (1, 10) (4, 2) [t_new, t_throw]"

definition t_decl :: cursor where
  "t_decl = node FUNCTION_DECL ''t'' ''t'' ''t.cpp'' (1, 1) (4, 2) [t_body]"

definition t_tu :: translation_unit where
  "t_tu = translation_unit_of ''t.cpp'' [t_decl]"

definition t_new_finding :: SideEffectInfo where
  "t_new_finding = finding DYNAMIC_MEMORY_ALLOCATION ''t.cpp'' (2, 5) (2, 15) ''new int(5)''"

definition t_throw_finding :: SideEffectInfo where
  "t_throw_finding = finding THROW_EXCEPTION ''t.cpp'' (3, 5) (3, 12) ''throw 1''"

subsection \<open>A match in a default argument\<close>

text \<open>
  \<^verbatim>\<open>void g(int* p = new int(1)) {\<close>\<^verbatim>\<open>    throw 1;\<close>\<^verbatim>\<open>}\<close>: the parameter declaration
  holds the new-expression, the body the throw-expression.
\<close>

definition g_cpp :: string where
  "g_cpp = ''void g(int* p = new int(1)) {'' @ [CHR 0x0A] @
           ''    throw 1;'' @ [CHR 0x0A] @
           ''}'' @ [CHR 0x0A]"

definition g_files :: files where
  "g_files = [''g.cpp'' \<mapsto> g_cpp]"

definition g_param :: cursor where
  "g_param = node PARM_DECL ''p'' ''p'' ''g.cpp'' (1, 8) (1, 27)
               [node CXX_NEW_EXPR [] [] ''g.cpp'' (1, 17) (1, 27)
                  [node INTEGER_LITERAL [] [] ''g.cpp'' (1, 25) (1, 26) []]]"

definition g_body :: cursor where
  "g_body = node COMPOUND_STMT [] [] ''g.cpp'' (1, 29) (3, 2)
              [node CXX_THROW_EXPR [] [] ''g.cpp'' (2, 5) (2, 12)
                 [node INTEGER_LITERAL [] [] ''g.cpp'' (2, 11) (2, 12) []]]"

definition g_decl :: cursor where
  "g_decl = node FUNCTION_DECL ''g'' ''g'' ''g.cpp'' (1, 1) (3, 2) [g_param, g_body]"

definition g_tu :: translation_unit where
  "g_tu = translation_unit_of ''g.cpp'' [g_decl]"

definition g_new_finding :: SideEffectInfo where
  "g_new_finding = finding DYNAMIC_MEMORY_ALLOCATION ''g.cpp'' (1, 17) (1, 27) ''new int(1)''"

definition g_throw_finding :: SideEffectInfo where
  "g_throw_finding = finding THROW_EXCEPTION ''g.cpp'' (2, 5) (2, 12) ''throw 1''"

subsection \<open>A function that only dereferences a pointer\<close>

text \<open>
  \<^verbatim>\<open>void f(int* p) { int x = *p; }\<close>: the first statement of \<open>f\<close> alone. The pointee
  type \<^verbatim>\<open>int\<close> is not const-qualified.
\<close>

definition x_decl :: cursor where
  "x_decl = node FUNCTION_DECL ''f'' ''f'' ''f.cpp'' (1, 1) (6, 2)
              [node PARM_DECL ''p'' ''p'' ''f.cpp'' (1, 8) (1, 14) [],
               node COMPOUND_STMT [] [] ''f.cpp'' (1, 16) (6, 2) [f_x_stmt]]"

definition x_tu :: translation_unit where
  "x_tu = translation_unit_of ''f.cpp'' [x_decl]"

subsection \<open>An assignment to a pointer to a pointer\<close>






subsection \<open>A function defined in an included header\<close>

text \<open>
  \<^verbatim>\<open>main.cpp\<close> is the one line that includes \<^verbatim>\<open>h.hpp\<close>; \<^verbatim>\<open>h.hpp\<close> defines
  \<^verbatim>\<open>inline void g() { throw 1; }\<close> on its third line. The declaration of \<open>g\<close> is a child
  of the root cursor of the translation unit of \<^verbatim>\<open>main.cpp\<close>, and its locations are
  in \<^verbatim>\<open>h.hpp\<close>.
\<close>

definition main_cpp :: string where
  "main_cpp = ''#include '' @ [CHR 0x22] @ ''h.hpp'' @ [CHR 0x22] @ [CHR 0x0A]"

definition h_hpp :: string where
  "h_hpp = ''#pragma once'' @ [CHR 0x0A] @
           [CHR 0x0A] @
           ''inline void g() { throw 1; }'' @ [CHR 0x0A]"

definition h_files :: files where
  "h_files = [''main.cpp'' \<mapsto> main_cpp, ''h.hpp'' \<mapsto> h_hpp]"

definition h_throw :: cursor where
  "h_throw = node CXX_THROW_EXPR [] [] ''h.hpp'' (3, 19) (3, 26)
               [node INTEGER_LITERAL [] [] ''h.hpp'' (3, 25) (3, 26) []]"

definition h_decl :: cursor where
  "h_decl = node FUNCTION_DECL ''g'' ''g'' ''h.hpp'' (3, 1) (3, 29)
              [node COMPOUND_STMT [] [] ''h.hpp'' (3, 17) (3, 29) [h_throw]]"

definition h_tu :: translation_unit where
  "h_tu = translation_unit_of ''main.cpp'' [h_decl]"

subsection \<open>A new-expression over two lines\<close>





subsection \<open>A file with three functions\<close>

text \<open>
  The function \<open>f\<close> between two functions without a match, and the lines that the
  report of \<open>f\<close> takes.
\<close>

definition qfq_tu :: translation_unit where
  "qfq_tu = translation_unit_of ''f.cpp'' [q_decl, f_decl, q_decl]"

definition f_report :: "string list" where
  "f_report = [''Funciton: f'', ''Side effect found: DYNAMIC_MEMORY_ALLOCATION'',
               ''Location: f.cpp:4:14 - 4:24'', ''Code: new int(5)'', []]"


section \<open>Properties of the search\<close>

text \<open>The classification of a cursor is decided by the pattern it matches.\<close>

lemma classify_pattern:
  "classify c tu fs =
     (case pattern_kind c of None \<Rightarrow> Inr None | Some k \<Rightarrow> side_effect_of k c tu fs)"
  by (simp add: classify_def pattern_kind_def is_dereference_def is_assignment_def
        is_allocation_def is_throw_def)

lemma side_effect_of_cases:
  "side_effect_of k c tu fs = Inr r \<Longrightarrow>
     \<exists>txt. full_name_from_cursor c (tu_spelling tu) fs = Inr txt
       \<and> r = Some \<lparr>kind = k, location = extent (attrs c), code = txt\<rparr>"
  by (auto simp: side_effect_of_def split: sum.splits)

lemma first_result_append:
  "first_result (xs @ ys) =
     (case first_result xs of Inr None \<Rightarrow> first_result ys | r \<Rightarrow> r)"
  by (induction xs) (auto split: sum.splits option.splits)

text \<open>
  \<open>has_side_effects\<close> is the first classification, in pre-order, that is a finding or
  an exception.
\<close>

lemma has_side_effects_first_result:
  "has_side_effects c tu fs = first_result (map (\<lambda>n. classify n tu fs) (nodes c))"
  "has_side_effects_children cs tu fs =
     first_result (map (\<lambda>n. classify n tu fs) (concat (map nodes cs)))"
  by (induction c tu fs and cs tu fs rule: has_side_effects_has_side_effects_children.induct)
     (auto simp: first_result_append split: sum.splits option.splits)

lemma first_result_all_none:
  "(\<forall>r \<in> set rs. r = Inr None) \<Longrightarrow> first_result rs = Inr None"
  by (induction rs) auto

lemma first_result_Some:
  "first_result rs = Inr (Some s) \<Longrightarrow> Inr (Some s) \<in> set rs"
  by (induction rs) (auto split: sum.splits option.splits)

lemma first_result_Inl:
  "first_result rs = Inl e \<Longrightarrow> Inl e \<in> set rs"
  by (induction rs) (auto split: sum.splits option.splits)

text \<open>The loop of \<open>scan_function\<close> appends to the list it is given.\<close>

lemma scan_children_acc:
  "scan_children cs tu fs acc =
     (case scan_children cs tu fs [] of Inl e \<Rightarrow> Inl e | Inr ss \<Rightarrow> Inr (acc @ ss))"
proof (induction cs arbitrary: acc)
  case Nil
  then show ?case by simp
next
  case (Cons c cs)
  show ?case
    by (simp add: Cons.IH [of "acc @ _"] Cons.IH [of "[_]"] Cons.IH [of acc]
          split: sum.splits option.splits)
qed

lemma scan_children_findings:
  "scan_children cs tu fs [] = Inr ss \<Longrightarrow> ss = concat (map (child_findings tu fs) cs)"
proof (induction cs arbitrary: ss)
  case Nil
  then show ?case by simp
next
  case (Cons c cs)
  then show ?case
    by (auto simp: child_findings_def scan_children_acc [of cs tu fs "[_]"]
          split: sum.splits option.splits)
qed

lemma scan_children_no_error:
  "(\<forall>c \<in> set cs. \<forall>e. has_side_effects c tu fs \<noteq> Inl e) \<Longrightarrow>
     scan_children cs tu fs [] = Inr (concat (map (child_findings tu fs) cs))"
proof (induction cs)
  case Nil
  then show ?case by simp
next
  case (Cons c cs)
  then show ?case
    by (auto simp: child_findings_def scan_children_acc [of cs tu fs "[_]"]
          split: sum.splits option.splits)
qed

lemma scan_children_append:
  "scan_children (xs @ ys) tu fs [] =
     (case scan_children xs tu fs [] of
        Inl e \<Rightarrow> Inl e
      | Inr ss \<Rightarrow> (case scan_children ys tu fs [] of Inl e \<Rightarrow> Inl e | Inr ts \<Rightarrow> Inr (ss @ ts)))"
proof (induction xs)
  case Nil
  then show ?case by (simp split: sum.splits)
next
  case (Cons x xs)
  show ?case
    by (simp add: Cons.IH scan_children_acc [of "xs @ ys" tu fs "[_]"]
          scan_children_acc [of xs tu fs "[_]"] split: sum.splits option.splits)
qed

lemma no_match_none:
  "\<forall>n \<in> set (nodes c). \<not> matches n \<Longrightarrow> has_side_effects c tu fs = Inr None"
proof -
  assume h: "\<forall>n \<in> set (nodes c). \<not> matches n"
  have "\<And>n. n \<in> set (nodes c) \<Longrightarrow> classify n tu fs = Inr None"
  proof -
    fix n assume "n \<in> set (nodes c)"
    with h have "\<not> matches n" by blast
    then have "pattern_kind n = None"
      by (simp add: matches_def pattern_kind_def)
    then show "classify n tu fs = Inr None"
      by (simp add: classify_pattern)
  qed
  then show ?thesis
    by (simp add: has_side_effects_first_result(1) first_result_all_none)
qed


section \<open>What a scan of a function returns\<close>

text \<open>
  Claim C1, as stated: two matching nodes that are siblings at the top statement level
  of a function body give two findings. It fails on \<^verbatim>\<open>void t() { new int(5); throw 1; }\<close>:
  \<open>main\<close> passes the function declaration to \<open>scan_function\<close>, the body is one child of
  it, and the search in that child stops at the new-expression.
\<close>

theorem two_statements_one_finding:
  "get_children t_decl = [t_body] \<and> cursor_kind (attrs t_body) = COMPOUND_STMT
   \<and> get_children t_body = [t_new, t_throw]
   \<and> is_allocation t_new \<and> is_throw t_throw
   \<and> scan_function t_decl t_tu t_files = Inr [t_new_finding]"
  by code_simp

text \<open>
  Claim C1, amended: a scan that returns gives, in the order of the children of the
  scanned cursor, one finding for each child whose subtree has one, namely the first
  classification in pre-order of that subtree that is a finding; so it never gives
  more findings than the scanned cursor has children. Two matching statements give two
  findings when they are under two different children of the scanned cursor, and one
  when they are statements of the same body.
\<close>

theorem scan_function_one_finding_per_child:
  assumes "scan_function fn tu fs = Inr ss"
  shows "ss = concat (map (child_findings tu fs) (get_children fn))
         \<and> length ss \<le> length (get_children fn)
         \<and> (\<forall>child \<in> set (get_children fn).
               child_findings tu fs child =
                 (case first_result (map (\<lambda>n. classify n tu fs) (nodes child)) of
                    Inr (Some s) \<Rightarrow> [s] | _ \<Rightarrow> []))"
proof -
  have eq: "ss = concat (map (child_findings tu fs) (get_children fn))"
    using assms unfolding scan_function_def by (rule scan_children_findings)
  have one: "\<And>c. length (child_findings tu fs c) \<le> 1"
    by (simp add: child_findings_def split: sum.splits option.splits)
  have "length (concat (map (child_findings tu fs) cs)) \<le> length cs" for cs
  proof (induction cs)
    case Nil
    then show ?case by simp
  next
    case (Cons c cs)
    then show ?case using one [of c] by simp
  qed
  then have len: "length ss \<le> length (get_children fn)"
    using eq by simp
  have "\<forall>child \<in> set (get_children fn).
          child_findings tu fs child =
            (case first_result (map (\<lambda>n. classify n tu fs) (nodes child)) of
               Inr (Some s) \<Rightarrow> [s] | _ \<Rightarrow> [])"
    by (simp add: child_findings_def has_side_effects_first_result(1))
  with eq len show ?thesis by blast
qed

text \<open>
  The amended claim on \<open>t\<close>: one finding from the function declaration, two from the
  body when the body itself is the scanned cursor.
\<close>

theorem scan_function_one_finding_per_child_witness:
  "scan_function t_decl t_tu t_files = Inr [t_new_finding]
   \<and> [t_new_finding] = concat (map (child_findings t_tu t_files) (get_children t_decl))
   \<and> scan_function t_body t_tu t_files = Inr [t_new_finding, t_throw_finding]
   \<and> [t_new_finding, t_throw_finding]
       = concat (map (child_findings t_tu t_files) (get_children t_body))"
proof -
  have h1: "scan_function t_decl t_tu t_files = Inr [t_new_finding]"
    by code_simp
  have h2: "scan_function t_body t_tu t_files = Inr [t_new_finding, t_throw_finding]"
    by code_simp
  show ?thesis
    using h1 h2 scan_function_one_finding_per_child [OF h1]
      scan_function_one_finding_per_child [OF h2]
    by simp
qed



text \<open>
  Claim C6: when no node below the scanned cursor matches any of the four patterns, at
  any depth, the scan returns the empty list (and raises nothing, whatever the files
  are).
\<close>

theorem scan_function_no_match:
  assumes "\<forall>child \<in> set (get_children fn). \<forall>n \<in> set (nodes child). \<not> matches n"
  shows "scan_function fn tu fs = Inr []"
proof -
  have none: "\<And>child. child \<in> set (get_children fn) \<Longrightarrow> has_side_effects child tu fs = Inr None"
    using assms no_match_none by blast
  then have "\<forall>c \<in> set (get_children fn). \<forall>e. has_side_effects c tu fs \<noteq> Inl e"
    by simp
  then have "scan_function fn tu fs = Inr (concat (map (child_findings tu fs) (get_children fn)))"
    unfolding scan_function_def by (rule scan_children_no_error)
  moreover have "concat (map (child_findings tu fs) (get_children fn)) = []"
    using none by (simp add: child_findings_def)
  ultimately show ?thesis by simp
qed

text \<open>On \<^verbatim>\<open>void f(int* p) { int* q = nullptr; }\<close>: no node matches, the scan is empty.\<close>

theorem scan_function_no_match_witness:
  "list_all (\<lambda>child. list_all (\<lambda>n. \<not> matches n) (nodes child)) (get_children q_decl)
   \<and> scan_function q_decl q_tu f_files = Inr []"
proof -
  have l: "list_all (\<lambda>child. list_all (\<lambda>n. \<not> matches n) (nodes child)) (get_children q_decl)"
    by code_simp
  then have h: "\<forall>child \<in> set (get_children q_decl). \<forall>n \<in> set (nodes child). \<not> matches n"
    by (simp add: list_all_iff)
  show ?thesis using l scan_function_no_match [OF h, of q_tu f_files] by simp
qed

text \<open>
  Claim C10: the scan runs over every child of the function declaration. When the
  children are the parameters followed by the body, the searches of the parameters
  raise nothing and the body has a finding, the scan returns the findings of the
  parameters, in order, followed by the finding of the body: a match in a default
  argument is a finding of its own, before that of the body.
\<close>

theorem scan_function_parameters_first:
  assumes "get_children fn = params @ [body]"
    and "\<forall>p \<in> set params. \<forall>e. has_side_effects p tu fs \<noteq> Inl e"
    and "has_side_effects body tu fs = Inr (Some b)"
  shows "scan_function fn tu fs = Inr (concat (map (child_findings tu fs) params) @ [b])"
proof -
  have "scan_children params tu fs [] = Inr (concat (map (child_findings tu fs) params))"
    using assms(2) by (rule scan_children_no_error)
  moreover have "scan_children [body] tu fs [] = Inr [b]"
    using assms(3) by simp
  ultimately show ?thesis
    by (simp add: scan_function_def assms(1) scan_children_append)
qed

text \<open>On \<^verbatim>\<open>void g(int* p = new int(1)) { throw 1; }\<close>: two findings, the parameter's first.\<close>

theorem scan_function_parameters_first_witness:
  "get_children g_decl = [g_param] @ [g_body]
   \<and> has_side_effects g_param g_tu g_files = Inr (Some g_new_finding)
   \<and> has_side_effects g_body g_tu g_files = Inr (Some g_throw_finding)
   \<and> scan_function g_decl g_tu g_files = Inr [g_new_finding, g_throw_finding]"
proof -
  have c: "get_children g_decl = [g_param] @ [g_body]" by code_simp
  have p: "has_side_effects g_param g_tu g_files = Inr (Some g_new_finding)" by code_simp
  have b: "has_side_effects g_body g_tu g_files = Inr (Some g_throw_finding)" by code_simp
  have ne: "\<forall>p \<in> set [g_param]. \<forall>e. has_side_effects p g_tu g_files \<noteq> Inl e"
    using p by simp
  show ?thesis
    using c p b scan_function_parameters_first [OF c ne b]
    by (simp add: child_findings_def)
qed


section \<open>Exceptions\<close>

text \<open>
  The guards of \<open>classify\<close> raise nothing: an exception of the search comes from the
  code text of a cursor that matches one of the four patterns.
\<close>

lemma classify_raises:
  "classify c tu fs = Inl e \<Longrightarrow>
     matches c \<and> full_name_from_cursor c (tu_spelling tu) fs = Inl e"
  by (auto simp: classify_pattern side_effect_of_def matches_def pattern_kind_def
        split: option.splits sum.splits if_splits)

lemma has_side_effects_raises:
  assumes "has_side_effects c tu fs = Inl e"
  shows "\<exists>n \<in> set (nodes c). matches n \<and> full_name_from_cursor n (tu_spelling tu) fs = Inl e"
proof -
  from assms have "first_result (map (\<lambda>n. classify n tu fs) (nodes c)) = Inl e"
    by (simp add: has_side_effects_first_result(1))
  then have "Inl e \<in> set (map (\<lambda>n. classify n tu fs) (nodes c))"
    by (rule first_result_Inl)
  then obtain n where "n \<in> set (nodes c)" "classify n tu fs = Inl e" by force
  then show ?thesis using classify_raises by blast
qed

text \<open>
  Claim C9 says that classification never raises. For the function \<open>g\<close> defined in the
  header \<^verbatim>\<open>h.hpp\<close> and scanned in the translation unit of \<^verbatim>\<open>main.cpp\<close>, the
  throw-expression matches, its code text is looked up on line 3 of \<^verbatim>\<open>main.cpp\<close>, which
  has one line, and IndexError leaves \<open>classify\<close>, \<open>scan_function\<close> and \<open>main\<close>.
\<close>

theorem header_function_raises:
  "tu_spelling h_tu = ''main.cpp''
   \<and> file_name (range_start (extent (attrs h_throw))) = Some ''h.hpp''
   \<and> classify h_throw h_tu h_files = Inl IndexError
   \<and> scan_function h_decl h_tu h_files = Inl IndexError
   \<and> main h_tu h_files = ([], Some IndexError)"
  by code_simp


section \<open>What the classification of one cursor gives\<close>

lemma has_side_effects_unfold:
  "has_side_effects c tu fs =
     (case classify c tu fs of
        Inl e \<Rightarrow> Inl e
      | Inr (Some s) \<Rightarrow> Inr (Some s)
      | Inr None \<Rightarrow> has_side_effects_children (get_children c) tu fs)"
  by (cases c) (simp split: sum.splits option.splits)

text \<open>
  An operator whose canonical spelling is not the one its branch asks for gives
  nothing by itself, whatever its types are.
\<close>

lemma operator_spelling_no_match:
  "cursor_kind (attrs c) = UNARY_OPERATOR \<Longrightarrow> canonical_spelling (attrs c) \<noteq> ''operator*''
     \<Longrightarrow> classify c tu fs = Inr None"
  "cursor_kind (attrs c) = BINARY_OPERATOR
     \<Longrightarrow> canonical_spelling (attrs c) \<notin> {''operator='', ''operator&=''}
     \<Longrightarrow> classify c tu fs = Inr None"
  by (simp_all add: classify_def)

text \<open>
  Claim C5 says that the dereference of a pointer to a type that is not const-qualified
  gives exactly one finding \<open>DEREFERENCE_NON_CONST_POINTER\<close>. The scanner gives none for
  \<^verbatim>\<open>*p\<close> in \<^verbatim>\<open>void f(int* p) { int x = *p; }\<close>: the branch asks for the canonical spelling
  \<^verbatim>\<open>operator*\<close>, the cursor of the built-in operator has the empty spelling, so the
  pointee type is never looked at. The scan of the function is empty and the run prints
  the summary line.
\<close>

theorem dereference_not_reported:
  "cursor_kind (attrs f_deref) = UNARY_OPERATOR
   \<and> canonical_spelling (attrs f_deref) = []
   \<and> \<not> pointee_is_const_qualified (attrs f_deref)
   \<and> classify f_deref x_tu f_files = Inr None
   \<and> has_side_effects f_x_stmt x_tu f_files = Inr None
   \<and> scan_function x_decl x_tu f_files = Inr []
   \<and> main x_tu f_files = ([''No side effects found.''], None)"
  by code_simp


text \<open>
  Behind the spelling there is a second obstacle: the kind of the left-hand type is
  compared with two cursor kinds, and a kind of a type is never equal to a cursor
  kind, so a cursor whose left-hand kind is a type kind never gives this finding.
\<close>

lemma type_kind_never_assignment:
  assumes "lhs_type_kind (attrs c) = OfTypeKind k"
  shows "\<not> is_assignment c"
    and "classify c tu fs = Inr (Some s) \<Longrightarrow> kind s \<noteq> ASSIGN_TO_POINTER_OR_REFERENCE"
  using assms
  by (auto simp: is_assignment_def classify_def side_effect_of_def split: if_splits sum.splits)

lemma classify_kind:
  "classify c tu fs = Inr (Some s) \<Longrightarrow> pattern_kind c = Some (kind s)"
  by (auto simp: classify_pattern split: option.splits dest!: side_effect_of_cases)

lemma pattern_kind_active:
  "pattern_kind c = Some k \<Longrightarrow>
     k \<in> {DEREFERENCE_NON_CONST_POINTER, ASSIGN_TO_POINTER_OR_REFERENCE,
          DYNAMIC_MEMORY_ALLOCATION, THROW_EXCEPTION}"
  by (auto simp: pattern_kind_def split: if_splits)

lemma has_side_effects_node:
  "has_side_effects c tu fs = Inr (Some s) \<Longrightarrow>
     \<exists>n \<in> set (nodes c). classify n tu fs = Inr (Some s)"
proof -
  assume "has_side_effects c tu fs = Inr (Some s)"
  then have "first_result (map (\<lambda>n. classify n tu fs) (nodes c)) = Inr (Some s)"
    by (simp add: has_side_effects_first_result(1))
  then have "Inr (Some s) \<in> set (map (\<lambda>n. classify n tu fs) (nodes c))"
    by (rule first_result_Some)
  then show ?thesis by force
qed

lemma at_most_one_pattern:
  "length (filter (\<lambda>p. p c) [is_dereference, is_assignment, is_allocation, is_throw]) \<le> 1"
  by (simp add: is_dereference_def is_assignment_def is_allocation_def is_throw_def)

text \<open>
  Claim C8: the kind of every finding of \<open>has_side_effects\<close> is one of the four active
  kinds, no finding of a scan has the kind \<open>OTHER\<close>, the kind of a cursor's own finding
  is that of the pattern it matches, taken in the order dereference, assignment,
  allocation, throw, and a cursor matches at most one of the four patterns.
\<close>

theorem findings_have_active_kinds:
  "(\<forall>s. has_side_effects c tu fs = Inr (Some s) \<longrightarrow>
         kind s \<in> {DEREFERENCE_NON_CONST_POINTER, ASSIGN_TO_POINTER_OR_REFERENCE,
                   DYNAMIC_MEMORY_ALLOCATION, THROW_EXCEPTION})
   \<and> (\<forall>ss. scan_function c tu fs = Inr ss \<longrightarrow> (\<forall>s \<in> set ss. kind s \<noteq> OTHER))
   \<and> (\<forall>s. classify c tu fs = Inr (Some s) \<longrightarrow> pattern_kind c = Some (kind s))
   \<and> length (filter (\<lambda>p. p c) [is_dereference, is_assignment, is_allocation, is_throw]) \<le> 1"
proof -
  have a: "kind s \<in> {DEREFERENCE_NON_CONST_POINTER, ASSIGN_TO_POINTER_OR_REFERENCE,
                     DYNAMIC_MEMORY_ALLOCATION, THROW_EXCEPTION}"
    if "has_side_effects d tu fs = Inr (Some s)" for d s
  proof -
    from that obtain n where "classify n tu fs = Inr (Some s)"
      using has_side_effects_node by blast
    then have "pattern_kind n = Some (kind s)" by (rule classify_kind)
    then show ?thesis by (rule pattern_kind_active)
  qed
  have b: "kind s \<noteq> OTHER" if "scan_function c tu fs = Inr ss" and "s \<in> set ss" for ss s
  proof -
    from that(1) have "ss = concat (map (child_findings tu fs) (get_children c))"
      unfolding scan_function_def by (rule scan_children_findings)
    with that(2) obtain d where "s \<in> set (child_findings tu fs d)" by auto
    then have "has_side_effects d tu fs = Inr (Some s)"
      by (auto simp: child_findings_def split: sum.splits option.splits)
    then show ?thesis using a by fastforce
  qed
  show ?thesis using a b classify_kind at_most_one_pattern by blast
qed

text \<open>On the body of \<open>f\<close>, and on the body and the throw-expression of \<open>t\<close>.\<close>

theorem findings_have_active_kinds_witness:
  "has_side_effects f_body f_tu f_files = Inr (Some f_new_finding)
   \<and> kind f_new_finding = DYNAMIC_MEMORY_ALLOCATION
   \<and> scan_function t_body t_tu t_files = Inr [t_new_finding, t_throw_finding]
   \<and> kind t_new_finding \<noteq> OTHER \<and> kind t_throw_finding \<noteq> OTHER
   \<and> classify t_throw t_tu t_files = Inr (Some t_throw_finding)
   \<and> pattern_kind t_throw = Some THROW_EXCEPTION"
proof -
  have h: "has_side_effects f_body f_tu f_files = Inr (Some f_new_finding)"
    and s: "scan_function t_body t_tu t_files = Inr [t_new_finding, t_throw_finding]"
    and c: "classify t_throw t_tu t_files = Inr (Some t_throw_finding)"
    and k: "kind f_new_finding = DYNAMIC_MEMORY_ALLOCATION"
           "kind t_throw_finding = THROW_EXCEPTION"
    by code_simp+
  have "kind f_new_finding
          \<in> {DEREFERENCE_NON_CONST_POINTER, ASSIGN_TO_POINTER_OR_REFERENCE,
              DYNAMIC_MEMORY_ALLOCATION, THROW_EXCEPTION}"
    using findings_have_active_kinds [of f_body f_tu f_files] h by blast
  moreover have "kind t_new_finding \<noteq> OTHER \<and> kind t_throw_finding \<noteq> OTHER"
    using findings_have_active_kinds [of t_body t_tu t_files] s by simp
  moreover have "pattern_kind t_throw = Some (kind t_throw_finding)"
    using findings_have_active_kinds [of t_throw t_tu t_files] c by blast
  ultimately show ?thesis using h s c k by simp
qed


section \<open>The output of a run\<close>

text \<open>No line of a report is the summary line.\<close>


lemma summary_not_in_print_side_effects:
  "summary_line \<notin> set (fst (print_side_effects ss))"
  by (induction ss) (auto simp: summary_line_def split: option.splits prod.splits)

lemma summary_not_in_report:
  "summary_line \<notin> set (fst (print_side_effect_info name ss))"
  using summary_not_in_print_side_effects [of ss]
  by (auto simp: print_side_effect_info_def summary_line_def split: prod.splits)

lemma main_loop_all_empty:
  "\<forall>f \<in> set (filter is_function cs). scan_function f tu fs = Inr [] \<Longrightarrow>
     main_loop cs tu fs b = ([], Inr b)"
  by (induction cs) (auto simp: is_function_def)

lemma main_loop_no_summary:
  "summary_line \<notin> set (fst (main_loop cs tu fs b))"
proof (induction cs arbitrary: b)
  case Nil
  then show ?case by simp
next
  case (Cons c cs)
  show ?case
  proof (cases "is_function c")
    case False
    then show ?thesis using Cons.IH [of b] by (simp add: is_function_def)
  next
    case True
    show ?thesis
    proof (cases "scan_function c tu fs")
      case (Inl e)
      then show ?thesis using True by (simp add: is_function_def)
    next
      case (Inr ss)
      show ?thesis
      proof (cases "ss = []")
        case True
        then show ?thesis
          using Cons.IH [of b] \<open>is_function c\<close> Inr by (simp add: is_function_def)
      next
        case False
        obtain o1 e1 where p: "print_side_effect_info (spelling (attrs c)) ss = (o1, e1)"
          by (cases "print_side_effect_info (spelling (attrs c)) ss")
        obtain o2 r2 where m: "main_loop cs tu fs False = (o2, r2)"
          by (cases "main_loop cs tu fs False")
        have "summary_line \<notin> set o1"
          using summary_not_in_report [of "spelling (attrs c)" ss] p by simp
        moreover have "summary_line \<notin> set o2"
          using Cons.IH [of False] m by simp
        ultimately show ?thesis
          using True Inr False p m by (cases e1) (simp_all add: is_function_def)
      qed
    qed
  qed
qed

lemma main_loop_flag:
  "main_loop cs tu fs b = (out, Inr b') \<Longrightarrow>
     b' = (b \<and> (\<forall>f \<in> set (filter is_function cs). scan_function f tu fs = Inr []))"
proof (induction cs arbitrary: b out)
  case Nil
  then show ?case by simp
next
  case (Cons c cs)
  show ?case
  proof (cases "is_function c")
    case False
    then show ?thesis using Cons by (simp add: is_function_def)
  next
    case True
    show ?thesis
    proof (cases "scan_function c tu fs")
      case (Inl e)
      then show ?thesis using Cons.prems True by (simp add: is_function_def)
    next
      case (Inr ss)
      show ?thesis
      proof (cases "ss = []")
        case True
        then show ?thesis using Cons \<open>is_function c\<close> Inr by (simp add: is_function_def)
      next
        case False
        obtain o1 e1 where p: "print_side_effect_info (spelling (attrs c)) ss = (o1, e1)"
          by (cases "print_side_effect_info (spelling (attrs c)) ss")
        obtain o2 r2 where m: "main_loop cs tu fs False = (o2, r2)"
          by (cases "main_loop cs tu fs False")
        from Cons.prems True Inr False p m have "e1 = None" "r2 = Inr b'"
          by (auto simp: is_function_def split: option.splits)
        with Cons.IH [of False o2] m have "b' = False" by simp
        then show ?thesis using True Inr False by simp
      qed
    qed
  qed
qed

lemma main_loop_report:
  "main_loop cs tu fs b = (out, Inr b') \<Longrightarrow>
     out = concat (map (function_report tu fs)
             (filter (\<lambda>f. findings_of tu fs f \<noteq> []) (filter is_function cs)))"
proof (induction cs arbitrary: b out)
  case Nil
  then show ?case by simp
next
  case (Cons c cs)
  show ?case
  proof (cases "is_function c")
    case False
    then show ?thesis using Cons by (simp add: is_function_def)
  next
    case True
    show ?thesis
    proof (cases "scan_function c tu fs")
      case (Inl e)
      then show ?thesis using Cons.prems True by (simp add: is_function_def)
    next
      case (Inr ss)
      show ?thesis
      proof (cases "ss = []")
        case True
        then show ?thesis
          using Cons \<open>is_function c\<close> Inr by (simp add: is_function_def findings_of_def)
      next
        case False
        obtain o1 e1 where p: "print_side_effect_info (spelling (attrs c)) ss = (o1, e1)"
          by (cases "print_side_effect_info (spelling (attrs c)) ss")
        obtain o2 r2 where m: "main_loop cs tu fs False = (o2, r2)"
          by (cases "main_loop cs tu fs False")
        from Cons.prems True Inr False p m have e: "e1 = None" "r2 = Inr b'" "out = o1 @ o2"
          by (auto simp: is_function_def split: option.splits)
        with Cons.IH [of False o2] m
        have "o2 = concat (map (function_report tu fs)
                (filter (\<lambda>f. findings_of tu fs f \<noteq> []) (filter is_function cs)))"
          by simp
        moreover have "function_report tu fs c = o1"
          using Inr p by (simp add: function_report_def findings_of_def)
        ultimately show ?thesis
          using True Inr False e by (simp add: findings_of_def)
      qed
    qed
  qed
qed

text \<open>
  Claim C7: the summary line is printed exactly when the scan of every scanned function
  returns the empty list, and it is then the whole output. Otherwise, in a run that
  ends without an exception, the output is the reports of the functions with at least
  one finding, in the order of the file, and nothing else.
\<close>

theorem main_summary:
  "(summary_line \<in> set (fst (main tu fs))
      \<longleftrightarrow> (\<forall>f \<in> set (scanned_functions tu). scan_function f tu fs = Inr []))
   \<and> ((\<forall>f \<in> set (scanned_functions tu). scan_function f tu fs = Inr [])
        \<longrightarrow> main tu fs = ([summary_line], None))
   \<and> (snd (main tu fs) = None
        \<and> \<not> (\<forall>f \<in> set (scanned_functions tu). scan_function f tu fs = Inr [])
        \<longrightarrow> fst (main tu fs)
              = concat (map (function_report tu fs)
                  (filter (\<lambda>f. findings_of tu fs f \<noteq> []) (scanned_functions tu))))"
proof -
  let ?cs = "get_children (tu_cursor tu)"
  let ?E = "\<forall>f \<in> set (scanned_functions tu). scan_function f tu fs = Inr []"
  obtain out r where m: "main_loop ?cs tu fs True = (out, r)"
    by (cases "main_loop ?cs tu fs True")
  have nos: "summary_line \<notin> set out"
    using main_loop_no_summary [of ?cs tu fs True] m by simp
  have flag: "b' = ?E" if "r = Inr b'" for b'
    using main_loop_flag [of ?cs tu fs True out b'] m that
    by (simp add: scanned_functions_def)
  have empty: "main tu fs = ([summary_line], None)" if ?E
  proof -
    from that have "main_loop ?cs tu fs True = ([], Inr True)"
      unfolding scanned_functions_def by (rule main_loop_all_empty)
    then show ?thesis by (simp add: main_def summary_line_def)
  qed
  have fwd: "summary_line \<in> set (fst (main tu fs))" if ?E
    using empty [OF that] by simp
  have conv: ?E if s: "summary_line \<in> set (fst (main tu fs))"
  proof (cases r)
    case (Inl e)
    then have "fst (main tu fs) = out" using m by (simp add: main_def)
    then show ?thesis using s nos by simp
  next
    case (Inr b')
    show ?thesis
    proof (cases b')
      case True
      then show ?thesis using flag [OF Inr] by simp
    next
      case False
      then have "fst (main tu fs) = out" using m Inr by (simp add: main_def)
      then show ?thesis using s nos by simp
    qed
  qed
  have rep: "fst (main tu fs)
              = concat (map (function_report tu fs)
                  (filter (\<lambda>f. findings_of tu fs f \<noteq> []) (scanned_functions tu)))"
    if n: "snd (main tu fs) = None" and ne: "\<not> ?E"
  proof (cases r)
    case (Inl e)
    then have "snd (main tu fs) = Some e" using m by (simp add: main_def)
    then show ?thesis using n by simp
  next
    case (Inr b')
    have "\<not> b'" using flag [OF Inr] ne by simp
    then have "fst (main tu fs) = out" using m Inr by (simp add: main_def)
    moreover have "out = concat (map (function_report tu fs)
             (filter (\<lambda>f. findings_of tu fs f \<noteq> []) (filter is_function ?cs)))"
      using m Inr main_loop_report [of ?cs tu fs True out b'] by simp
    ultimately show ?thesis by (simp add: scanned_functions_def)
  qed
  show ?thesis
  proof (intro conjI impI iffI)
    assume "summary_line \<in> set (fst (main tu fs))"
    then show ?E by (rule conv)
  next
    assume ?E
    then show "summary_line \<in> set (fst (main tu fs))" by (rule fwd)
  next
    assume ?E
    then show "main tu fs = ([summary_line], None)" by (rule empty)
  next
    assume "snd (main tu fs) = None \<and> \<not> ?E"
    then show "fst (main tu fs)
              = concat (map (function_report tu fs)
                  (filter (\<lambda>f. findings_of tu fs f \<noteq> []) (scanned_functions tu)))"
      using rep by blast
  qed
qed

text \<open>
  On the file with the one function without a match, and on the file with \<open>f\<close> between
  two such functions.
\<close>

theorem main_summary_witness:
  "main q_tu f_files = ([''No side effects found.''], None)
   \<and> list_all (\<lambda>f. scan_function f q_tu f_files = Inr []) (scanned_functions q_tu)
   \<and> main qfq_tu f_files = (f_report, None)
   \<and> scanned_functions qfq_tu = [q_decl, f_decl, q_decl]
   \<and> filter (\<lambda>f. findings_of qfq_tu f_files f \<noteq> []) (scanned_functions qfq_tu) = [f_decl]
   \<and> function_report qfq_tu f_files f_decl = f_report"
proof -
  have l: "list_all (\<lambda>f. scan_function f q_tu f_files = Inr []) (scanned_functions q_tu)"
    by code_simp
  then have e: "\<forall>f \<in> set (scanned_functions q_tu). scan_function f q_tu f_files = Inr []"
    by (simp add: list_all_iff)
  have q: "main q_tu f_files = ([summary_line], None)"
    using main_summary [of q_tu f_files] e by blast
  have s: "snd (main qfq_tu f_files) = None"
    and fl: "scanned_functions qfq_tu = [q_decl, f_decl, q_decl]"
    and fi: "filter (\<lambda>f. findings_of qfq_tu f_files f \<noteq> []) (scanned_functions qfq_tu) = [f_decl]"
    and fr: "function_report qfq_tu f_files f_decl = f_report"
    and ne: "scan_function f_decl qfq_tu f_files \<noteq> Inr []"
    by code_simp+
  have "\<not> (\<forall>f \<in> set (scanned_functions qfq_tu). scan_function f qfq_tu f_files = Inr [])"
    using fl ne by simp
  then have "fst (main qfq_tu f_files)
              = concat (map (function_report qfq_tu f_files)
                  (filter (\<lambda>f. findings_of qfq_tu f_files f \<noteq> []) (scanned_functions qfq_tu)))"
    using main_summary [of qfq_tu f_files] s by blast
  then have "fst (main qfq_tu f_files) = f_report"
    using fi fr by simp
  then have m: "main qfq_tu f_files = (f_report, None)"
    using s by (metis prod.collapse)
  show ?thesis using q l m fl fi fr by (simp add: summary_line_def)
qed


section \<open>The code text of a finding\<close>













end
